theory Spec2Isabelle
  imports Main
begin

section \<open>JavaScript values\<close>

text \<open>
  The values that flow through \<^verbatim>\<open>lib/connection.js\<close>: configuration records, index
  specifications, driver results and errors. \<open>JError m\<close> is an Error object built with
  \<^verbatim>\<open>new Error(m)\<close> (or a TypeError raised by the runtime); \<open>JOperational e\<close> is the error
  \<open>e\<close> marked by Bluebird as operational: the error a driver passed to a node-style
  callback, as the promisified method rejects with it, or the TypeError with which
  Bluebird itself rejects a call of its interface. Only such reasons reach an
  \<^verbatim>\<open>.error(...)\<close> handler; an exception thrown in a handler is not one.
\<close>

datatype jsval =
    JUndefined
  | JNull
  | JBool bool
  | JNum int
  | JStr string
  | JObj "(string \<times> jsval) list"
  | JArr "jsval list"
  | JError string
  | JOperational jsval

text \<open>JavaScript truthiness, as used by \<^verbatim>\<open>||\<close>, \<^verbatim>\<open>!\<close>, \<^verbatim>\<open>? :\<close> and \<^verbatim>\<open>if\<close>.\<close>

fun truthy :: "jsval \<Rightarrow> bool" where
  "truthy JUndefined = False"
| "truthy JNull = False"
| "truthy (JBool b) = b"
| "truthy (JNum n) = (n \<noteq> 0)"
| "truthy (JStr s) = (s \<noteq> [])"
| "truthy (JObj kvs) = True"
| "truthy (JArr xs) = True"
| "truthy (JError m) = True"
| "truthy (JOperational e) = True"

definition type_error :: jsval where
  "type_error = JError ''TypeError: cannot read property of undefined or null''"

text \<open>
  Property access \<^verbatim>\<open>v.k\<close>. Reading a property of \<^verbatim>\<open>undefined\<close> or \<^verbatim>\<open>null\<close> throws a
  TypeError; a missing property reads as \<^verbatim>\<open>undefined\<close>. None of the names the source reads
  (safe, nativeParser, user, password, host, port, database, auth, indexes, index, options)
  is a built-in property of arrays, strings, numbers or booleans.
\<close>

fun get_prop :: "jsval \<Rightarrow> string \<Rightarrow> jsval + jsval" where
  "get_prop JUndefined k = Inl type_error"
| "get_prop JNull k = Inl type_error"
| "get_prop (JObj kvs) k = Inr (case map_of kvs k of Some v \<Rightarrow> v | None \<Rightarrow> JUndefined)"
| "get_prop (JArr xs) k = Inr (if k = ''length'' then JNum (int (length xs)) else JUndefined)"
| "get_prop (JStr s) k = Inr (if k = ''length'' then JNum (int (length s)) else JUndefined)"
| "get_prop (JError m) k = Inr (if k = ''message'' then JStr m else JUndefined)"
| "get_prop v k = Inr JUndefined"

definition bind_e :: "jsval + 'a \<Rightarrow> ('a \<Rightarrow> jsval + 'b) \<Rightarrow> jsval + 'b" where
  "bind_e m f = (case m of Inl e \<Rightarrow> Inl e | Inr x \<Rightarrow> f x)"

section \<open>Driver handles, events and the world\<close>

text \<open>
  Modelled from the spec: the \<^verbatim>\<open>Server\<close> and \<^verbatim>\<open>Db\<close> objects of the MongoDB driver, which
  is not part of the repository. The spec describes handle construction as in-memory
  object setup, so a handle, once its constructor has returned, is the record of what the
  constructor was given; whether a constructor returns or throws is the driver's. \<^verbatim>\<open>Db\<close>
  exposes the server it was built on as \<^verbatim>\<open>serverConfig\<close> and \<^verbatim>\<open>Server\<close> exposes its
  options as \<^verbatim>\<open>options\<close>, which is how \<^verbatim>\<open>authenticate\<close> reads the credentials back.
\<close>

record server_handle =
  s_host :: jsval
  s_port :: jsval
  s_options :: jsval

record db_handle =
  databaseName :: jsval
  serverConfig :: server_handle
  db_options :: jsval

record connection =
  config :: jsval
  server :: server_handle
  database :: db_handle

datatype db_method =
    Open
  | Close
  | Authenticate jsval jsval
  | CreateCollection jsval
  | DropCollection jsval

text \<open>
  Everything the layer does to its environment, in order: the two constructor calls, the
  methods invoked on a database handle, \<^verbatim>\<open>ensureIndex\<close> invoked on a collection with its
  two arguments, and invocations of a callback supplied by the caller, with the arguments
  \<open>(err, value)\<close>.
\<close>

datatype event =
    NewServer jsval jsval jsval
  | NewDb jsval server_handle jsval
  | DbCall db_handle db_method
  | CollEnsureIndex jsval jsval jsval
  | Callback jsval jsval

text \<open>
  The driver is a parameter: for the events so far and the call being made, the arguments
  \<open>(err, result)\<close> with which it answers a method call; for a constructor call, a truthy
  \<open>err\<close> is the exception the constructor throws.
\<close>

datatype reply = Reply jsval jsval

type_synonym driver = "event list \<Rightarrow> event \<Rightarrow> reply"

datatype outcome = Pending | Fulfilled jsval | Rejected jsval

text \<open>
  The world: the events so far and the promises created with \<^verbatim>\<open>new Promise\<close>, each a cell
  that is settled at most once.
\<close>

record world =
  trace :: "event list"
  cells :: "nat \<Rightarrow> outcome"
  fresh :: nat

definition init_world :: world where
  "init_world = \<lparr>trace = [], cells = (\<lambda>_. Pending), fresh = 0\<rparr>"

definition new_promise :: "world \<Rightarrow> nat \<times> world" where
  "new_promise w = (fresh w, w\<lparr>cells := (cells w)(fresh w := Pending), fresh := Suc (fresh w)\<rparr>)"

text \<open>\<^verbatim>\<open>resolve(v)\<close> and \<^verbatim>\<open>reject(e)\<close>: the first call settles the promise, later ones do nothing.\<close>

definition settle :: "nat \<Rightarrow> outcome \<Rightarrow> world \<Rightarrow> world" where
  "settle p r w = (if cells w p = Pending then w\<lparr>cells := (cells w)(p := r)\<rparr> else w)"

definition emit :: "event \<Rightarrow> world \<Rightarrow> world" where
  "emit e w = w\<lparr>trace := trace w @ [e]\<rparr>"

section \<open>Promises and callbacks\<close>

text \<open>
  The promise operations of Bluebird that the source uses (\<^verbatim>\<open>new Promise\<close>, \<^verbatim>\<open>then\<close>,
  \<^verbatim>\<open>error\<close>, \<^verbatim>\<open>nodeify\<close>, \<^verbatim>\<open>Promise.all\<close>, \<^verbatim>\<open>promisifyAll\<close>), as the library documents
  them. A promise chain is a computation on the world that yields the outcome of the
  chain. The driver answers every call, so a chain is settled when the computation
  returns; a promise stays \<open>Pending\<close> exactly when nothing ever resolves or rejects it.
\<close>

type_synonym promise = "world \<Rightarrow> outcome \<times> world"

text \<open>
  A callback is either the one the caller supplied, whose invocation is an event, or a
  function literal of \<^verbatim>\<open>connection.js\<close> itself (a closure), which acts on the world.
\<close>

datatype callback = UserCallback | Closure "jsval \<Rightarrow> jsval \<Rightarrow> world \<Rightarrow> world"

fun invoke :: "callback \<Rightarrow> jsval \<Rightarrow> jsval \<Rightarrow> world \<Rightarrow> world" where
  "invoke UserCallback e v w = emit (Callback e v) w"
| "invoke (Closure f) e v w = f e v w"

definition user_cb :: "bool \<Rightarrow> callback option" where
  "user_cb b = (if b then Some UserCallback else None)"

text \<open>
  \<^verbatim>\<open>if (cb) promise.nodeify(cb)\<close>: once the promise is settled the callback is invoked, with
  \<open>(null, value)\<close> on fulfilment and with the reason on rejection. (Later versions of
  Bluebird wrap a falsy reason in an Error object before they pass it to the callback; no
  statement below is about a callback that receives a falsy reason.)
\<close>

fun nodeify :: "callback option \<Rightarrow> outcome \<Rightarrow> world \<Rightarrow> world" where
  "nodeify None r w = w"
| "nodeify (Some cb) Pending w = w"
| "nodeify (Some cb) (Fulfilled v) w = invoke cb JNull v w"
| "nodeify (Some cb) (Rejected e) w = invoke cb e JUndefined w"

fun is_operational :: "jsval \<Rightarrow> bool" where
  "is_operational (JOperational e) = True"
| "is_operational v = False"

text \<open>\<^verbatim>\<open>m.then(f)\<close>: \<open>f\<close> runs on fulfilment only; a rejection passes through.\<close>

definition then_p :: "promise \<Rightarrow> (jsval \<Rightarrow> promise) \<Rightarrow> promise" where
  "then_p m f w =
     (let (r, w') = m w in
      case r of Fulfilled v \<Rightarrow> f v w' | Rejected e \<Rightarrow> (Rejected e, w') | Pending \<Rightarrow> (Pending, w'))"

text \<open>\<^verbatim>\<open>m.error(f)\<close>: \<open>f\<close> runs on a rejection with an operational reason only.\<close>

definition error_p :: "promise \<Rightarrow> (jsval \<Rightarrow> promise) \<Rightarrow> promise" where
  "error_p m f w =
     (let (r, w') = m w in
      case r of
        Rejected e \<Rightarrow> if is_operational e then f e w' else (Rejected e, w')
      | Fulfilled v \<Rightarrow> (Fulfilled v, w')
      | Pending \<Rightarrow> (Pending, w'))"

text \<open>
  A method promisified by \<^verbatim>\<open>Promise.promisifyAll\<close> (\<^verbatim>\<open>openAsync\<close>, \<^verbatim>\<open>closeAsync\<close>, ...):
  the call is made, and the promise rejects with the driver's error when the callback's
  first argument is truthy and fulfils with the second argument otherwise.
\<close>

definition promisified :: "driver \<Rightarrow> event \<Rightarrow> promise" where
  "promisified drv c w =
     (case drv (trace w) c of
        Reply err res \<Rightarrow>
          (if truthy err then Rejected (JOperational err) else Fulfilled res, emit c w))"

text \<open>
  A driver method called directly inside a then-handler, with no callback
  (\<^verbatim>\<open>collection.ensureIndex(index, options)\<close>): what it returns, or the promise it returns,
  fulfils the chain (\<open>Reply err res\<close> with a falsy \<open>err\<close>); what it throws, or the rejection of
  the promise it returns, rejects the chain with that reason as it is.
\<close>

definition direct_call :: "driver \<Rightarrow> event \<Rightarrow> promise" where
  "direct_call drv c w =
     (case drv (trace w) c of
        Reply err res \<Rightarrow> (if truthy err then Rejected err else Fulfilled res, emit c w))"

section \<open>The connection\<close>

subsection \<open>Construction\<close>

text \<open>
  A constructor of the driver called with \<^verbatim>\<open>new\<close>: the call is an event, and it either
  throws or returns.
\<close>

definition construct :: "driver \<Rightarrow> event \<Rightarrow> world \<Rightarrow> jsval + world" where
  "construct drv c w =
     (case drv (trace w) c of
        Reply err res \<Rightarrow> if truthy err then Inl err else Inr (emit c w))"

text \<open>
  \<^verbatim>\<open>buildConnection\<close> reads the configuration held in \<^verbatim>\<open>this.config\<close> and calls the two
  constructors, \<^verbatim>\<open>new Server(host, port, serverOptions)\<close> and then
  \<^verbatim>\<open>new Db(database, this.server, databaseOptions)\<close>. \<^verbatim>\<open>Promise.promisifyAll\<close> then adds
  the \<^verbatim>\<open>...Async\<close> methods to both handles; it calls none of them.
\<close>

definition buildConnection ::
  "driver \<Rightarrow> jsval \<Rightarrow> world \<Rightarrow> jsval + (connection \<times> world)" where
  "buildConnection drv cfg w =
     bind_e (get_prop cfg ''safe'') (\<lambda>s.
     bind_e (get_prop cfg ''nativeParser'') (\<lambda>np.
     bind_e (get_prop cfg ''user'') (\<lambda>u.
     bind_e (get_prop cfg ''password'') (\<lambda>pw.
     bind_e (get_prop cfg ''nativeParser'') (\<lambda>np'.
     bind_e (get_prop cfg ''host'') (\<lambda>h.
     bind_e (get_prop cfg ''port'') (\<lambda>pt.
       let safe = (if truthy s then JNum 1 else JNum 0);
           serverOptions =
             JObj [(''native_parser'', np),
                   (''auth'', JObj [(''user'', u), (''password'', pw)])];
           databaseOptions = JObj [(''w'', safe), (''native_parser'', np')];
           srv = \<lparr>s_host = h, s_port = pt, s_options = serverOptions\<rparr>
       in
     bind_e (construct drv (NewServer h pt serverOptions) w) (\<lambda>w1.
     bind_e (get_prop cfg ''database'') (\<lambda>dbn.
     bind_e (construct drv (NewDb dbn srv databaseOptions) w1) (\<lambda>w2.
       Inr (\<lparr>config = cfg, server = srv,
              database = \<lparr>databaseName = dbn, serverConfig = srv,
                          db_options = databaseOptions\<rparr>\<rparr>,
            w2)))))))))))"

text \<open>\<^verbatim>\<open>new Connection(config)\<close>: \<^verbatim>\<open>this.config = config || {}\<close>, then \<^verbatim>\<open>buildConnection\<close>.\<close>

definition Connection :: "driver \<Rightarrow> jsval \<Rightarrow> world \<Rightarrow> jsval + (connection \<times> world)" where
  "Connection drv cfg w = buildConnection drv (if truthy cfg then cfg else JObj []) w"

subsection \<open>close, authenticate, open\<close>

definition close :: "driver \<Rightarrow> connection \<Rightarrow> callback option \<Rightarrow> promise" where
  "close drv self cb w =
     (let (r, w') = promisified drv (DbCall (database self) Close) w
      in (r, nodeify cb r w'))"

definition generic_auth_error :: jsval where
  "generic_auth_error =
     JError ''Could not authenticate the User/Password combination provided.''"

text \<open>\<^verbatim>\<open>options.auth.user\<close> and \<^verbatim>\<open>options.auth.password\<close>.\<close>

definition auth_field :: "jsval \<Rightarrow> string \<Rightarrow> jsval + jsval" where
  "auth_field opts k = bind_e (get_prop opts ''auth'') (\<lambda>a. get_prop a k)"

definition or_empty :: "jsval \<Rightarrow> jsval" where
  "or_empty v = (if truthy v then v else JStr [])"

text \<open>
  The executor of \<^verbatim>\<open>authenticate\<close>'s promise \<open>p\<close>. An exception thrown by the executor
  rejects the promise.
\<close>

definition authenticate_body :: "driver \<Rightarrow> connection \<Rightarrow> nat \<Rightarrow> world \<Rightarrow> world" where
  "authenticate_body drv self p w =
     (let opts = s_options (serverConfig (database self)) in
      case auth_field opts ''user'' of
        Inl e \<Rightarrow> settle p (Rejected e) w
      | Inr u \<Rightarrow>
          (case auth_field opts ''password'' of
             Inl e \<Rightarrow> settle p (Rejected e) w
           | Inr pw \<Rightarrow>
               if \<not> truthy u \<and> \<not> truthy pw then settle p (Fulfilled JUndefined) w
               else
                 snd (error_p
                   (then_p
                      (promisified drv
                         (DbCall (database self) (Authenticate (or_empty u) (or_empty pw))))
                      (\<lambda>success w1. (Fulfilled JUndefined, settle p (Fulfilled JUndefined) w1)))
                   (\<lambda>err w1.
                      (Fulfilled JUndefined,
                       snd (close drv self
                         (Some (Closure (\<lambda>_ _ w2.
                            if truthy err then settle p (Rejected err) w2
                            else settle p (Rejected generic_auth_error) w2)))
                         w1)))
                   w)))"

definition authenticate :: "driver \<Rightarrow> connection \<Rightarrow> callback option \<Rightarrow> promise" where
  "authenticate drv self cb w0 =
     (let (p, w) = new_promise w0;
          w1 = authenticate_body drv self p w
      in (cells w1 p, nodeify cb (cells w1 p) w1))"

text \<open>
  \<^verbatim>\<open>open\<close>, named \<open>open_conn\<close> here because \<open>open\<close> is a keyword of Isabelle. The
  executor chains \<^verbatim>\<open>openAsync().then(authenticate).error(reject)\<close>; the source has no call
  of \<^verbatim>\<open>resolve\<close> in it.
\<close>

definition open_body :: "driver \<Rightarrow> connection \<Rightarrow> callback option \<Rightarrow> nat \<Rightarrow> world \<Rightarrow> world" where
  "open_body drv self cb p w =
     snd (error_p
       (then_p (promisified drv (DbCall (database self) Open))
          (\<lambda>_. authenticate drv self cb))
       (\<lambda>err w1. (Fulfilled JUndefined, settle p (Rejected err) w1))
       w)"

definition open_conn :: "driver \<Rightarrow> connection \<Rightarrow> callback option \<Rightarrow> promise" where
  "open_conn drv self cb w0 =
     (let (p, w) = new_promise w0;
          w1 = open_body drv self cb p w
      in (cells w1 p, nodeify cb (cells w1 p) w1))"

subsection \<open>ensureIndexes\<close>

definition all_type_error :: jsval where
  "all_type_error = JError ''TypeError: expecting an array, a promise or a thenable''"

text \<open>
  \<^verbatim>\<open>Promise.all(v)\<close> for a plain value \<open>v\<close>: an array of plain values fulfils with the
  array; anything that is not an array is rejected by Bluebird with a TypeError, which it
  marks as operational.
\<close>

definition promise_all :: "jsval \<Rightarrow> promise" where
  "promise_all v w =
     (case v of
        JArr xs \<Rightarrow> (Fulfilled (JArr xs), w)
      | _ \<Rightarrow> (Rejected (JOperational all_type_error), w))"

text \<open>
  The inner function \<^verbatim>\<open>createIndex(item)\<close>:
  \<^verbatim>\<open>return collection.ensureIndex(item.index, item.options)\<close>. The collection is taken to be
  a collection object of the driver, as a successful \<^verbatim>\<open>createCollection\<close> of the driver
  hands one back: the TypeError of a method call on a value that is no such object is not
  modelled.
\<close>

definition createIndex :: "driver \<Rightarrow> jsval \<Rightarrow> jsval \<Rightarrow> promise" where
  "createIndex drv collection item w =
     (case get_prop item ''index'' of
        Inl e \<Rightarrow> (Rejected e, w)
      | Inr i \<Rightarrow>
          (case get_prop item ''options'' of
             Inl e \<Rightarrow> (Rejected e, w)
           | Inr opts \<Rightarrow> direct_call drv (CollEnsureIndex collection i opts) w))"

text \<open>
  \<^verbatim>\<open>var promise = Promise.all(indexes).then(createIndex)\<close>: the handler receives the value
  of \<^verbatim>\<open>Promise.all\<close>, which is the whole array.
\<close>

definition ensureIndexes :: "driver \<Rightarrow> jsval \<Rightarrow> jsval \<Rightarrow> callback option \<Rightarrow> promise" where
  "ensureIndexes drv collection indexes cb w =
     (let (r, w') = then_p (promise_all indexes) (createIndex drv collection) w
      in (r, nodeify cb r w'))"

subsection \<open>createCollection and dropCollection\<close>

text \<open>\<^verbatim>\<open>self.close().then(function() { reject(err); })\<close> for the promise \<open>p\<close>.\<close>

definition close_then_reject :: "driver \<Rightarrow> connection \<Rightarrow> nat \<Rightarrow> jsval \<Rightarrow> promise" where
  "close_then_reject drv self p err =
     then_p (close drv self None)
       (\<lambda>_ w. (Fulfilled JUndefined, settle p (Rejected err) w))"

definition createCollection_body ::
  "driver \<Rightarrow> connection \<Rightarrow> jsval \<Rightarrow> jsval \<Rightarrow> nat \<Rightarrow> world \<Rightarrow> world" where
  "createCollection_body drv self name collection p w =
     snd (then_p (promisified drv (DbCall (database self) Open))
       (\<lambda>_. error_p
          (then_p (promisified drv (DbCall (database self) (CreateCollection name)))
             (\<lambda>result w1.
                case get_prop collection ''indexes'' of
                  Inl e \<Rightarrow> (Rejected e, w1)
                | Inr indexes \<Rightarrow>
                    ensureIndexes drv result indexes
                      (Some (Closure (\<lambda>err _ w2. snd (close_then_reject drv self p err w2))))
                      w1))
          (\<lambda>err. close_then_reject drv self p err))
       w)"

definition createCollection ::
  "driver \<Rightarrow> connection \<Rightarrow> jsval \<Rightarrow> jsval \<Rightarrow> callback option \<Rightarrow> promise" where
  "createCollection drv self name collection cb w0 =
     (let (p, w) = new_promise w0;
          w1 = createCollection_body drv self name collection p w
      in (cells w1 p, nodeify cb (cells w1 p) w1))"

definition dropCollection_body :: "driver \<Rightarrow> connection \<Rightarrow> jsval \<Rightarrow> nat \<Rightarrow> world \<Rightarrow> world" where
  "dropCollection_body drv self name p w =
     snd (then_p (promisified drv (DbCall (database self) Open))
       (\<lambda>_. then_p (promisified drv (DbCall (database self) (DropCollection name)))
          (\<lambda>err. close_then_reject drv self p err))
       w)"

definition dropCollection :: "driver \<Rightarrow> connection \<Rightarrow> jsval \<Rightarrow> callback option \<Rightarrow> promise" where
  "dropCollection drv self name cb w0 =
     (let (p, w) = new_promise w0;
          w1 = dropCollection_body drv self name p w
      in (cells w1 p, nodeify cb (cells w1 p) w1))"

subsection \<open>Sequences of operations on one connection\<close>

text \<open>
  The six operations, each with or without a callback of the caller. The methods read
  \<^verbatim>\<open>this.database\<close> (and through it the server) and the source has no assignment to
  \<^verbatim>\<open>this.config\<close>, \<^verbatim>\<open>this.server\<close> or \<^verbatim>\<open>this.database\<close> outside the constructor, so the
  connection is an argument that every operation of a sequence reads.
\<close>

datatype operation =
    OpOpen bool
  | OpClose bool
  | OpAuthenticate bool
  | OpCreateCollection jsval jsval bool
  | OpDropCollection jsval bool
  | OpEnsureIndexes jsval jsval bool

fun run_op :: "driver \<Rightarrow> connection \<Rightarrow> operation \<Rightarrow> world \<Rightarrow> world" where
  "run_op drv self (OpOpen b) w = snd (open_conn drv self (user_cb b) w)"
| "run_op drv self (OpClose b) w = snd (close drv self (user_cb b) w)"
| "run_op drv self (OpAuthenticate b) w = snd (authenticate drv self (user_cb b) w)"
| "run_op drv self (OpCreateCollection name collection b) w =
     snd (createCollection drv self name collection (user_cb b) w)"
| "run_op drv self (OpDropCollection name b) w =
     snd (dropCollection drv self name (user_cb b) w)"
| "run_op drv self (OpEnsureIndexes collection indexes b) w =
     snd (ensureIndexes drv collection indexes (user_cb b) w)"

fun run_ops :: "driver \<Rightarrow> connection \<Rightarrow> operation list \<Rightarrow> world \<Rightarrow> world" where
  "run_ops drv self [] w = w"
| "run_ops drv self (x # xs) w = run_ops drv self xs (run_op drv self x w)"

section \<open>Drivers and inputs used to evaluate the operations\<close>

text \<open>A driver that answers every call with success, constructor calls included.\<close>

fun accepting :: driver where
  "accepting h (DbCall d (CreateCollection n)) = Reply JNull (JObj [(''collectionName'', n)])"
| "accepting h c = Reply JNull (JStr ''ok'')"

text \<open>Drivers that report the error \<open>boom\<close> on one kind of call and accept the others.\<close>

definition boom :: jsval where
  "boom = JStr ''boom''"

fun failing_open :: driver where
  "failing_open h (DbCall d Open) = Reply boom JUndefined"
| "failing_open h c = accepting h c"

fun failing_close :: driver where
  "failing_close h (DbCall d Close) = Reply boom JUndefined"
| "failing_close h c = accepting h c"

fun failing_authenticate :: driver where
  "failing_authenticate h (DbCall d (Authenticate u p)) = Reply boom JUndefined"
| "failing_authenticate h c = accepting h c"

fun failing_drop :: driver where
  "failing_drop h (DbCall d (DropCollection n)) = Reply boom JUndefined"
| "failing_drop h c = accepting h c"

text \<open>
  A driver that reports an unsuccessful authentication without an error: it answers the
  authentication call with \<open>(null, false)\<close>.
\<close>

fun unsuccessful_authenticate :: driver where
  "unsuccessful_authenticate h (DbCall d (Authenticate u p)) = Reply JNull (JBool False)"
| "unsuccessful_authenticate h c = accepting h c"

text \<open>
  A driver whose \<^verbatim>\<open>Db\<close> constructor refuses a database name that is not a string, as the
  MongoDB driver does.
\<close>

fun strict_names :: driver where
  "strict_names h (NewDb (JStr s) srv opts) = accepting h (NewDb (JStr s) srv opts)"
| "strict_names h (NewDb n srv opts) = Reply (JError ''database name must be a string'') JUndefined"
| "strict_names h c = accepting h c"

definition anonymous_config :: jsval where
  "anonymous_config =
     JObj [(''host'', JStr ''localhost''), (''port'', JNum 27017),
           (''database'', JStr ''app''), (''safe'', JBool True)]"

definition user_config :: jsval where
  "user_config =
     JObj [(''host'', JStr ''localhost''), (''port'', JNum 27017),
           (''database'', JStr ''app''), (''user'', JStr ''bob''), (''safe'', JBool False)]"

definition conn_of :: "jsval \<Rightarrow> connection" where
  "conn_of cfg =
     (case Connection accepting cfg init_world of Inr (self, w) \<Rightarrow> self
      | Inl e \<Rightarrow> \<lparr>config = JUndefined,
                  server = \<lparr>s_host = JUndefined, s_port = JUndefined, s_options = JUndefined\<rparr>,
                  database = \<lparr>databaseName = JUndefined,
                    serverConfig = \<lparr>s_host = JUndefined, s_port = JUndefined,
                      s_options = JUndefined\<rparr>,
                    db_options = JUndefined\<rparr>\<rparr>)"

definition two_indexes :: jsval where
  "two_indexes =
     JArr [JObj [(''index'', JStr ''name''), (''options'', JObj [(''unique'', JBool True)])],
           JObj [(''index'', JStr ''email''), (''options'', JObj [])]]"

definition users :: jsval where
  "users = JStr ''users''"

definition users_collection :: jsval where
  "users_collection = JObj [(''collectionName'', JStr ''users'')]"

definition world_of :: "jsval \<Rightarrow> world" where
  "world_of cfg =
     (case Connection accepting cfg init_world of
        Inr (self, w) \<Rightarrow> w
      | Inl e \<Rightarrow> init_world)"

definition example_ops :: "operation list" where
  "example_ops =
     [OpOpen False,
      OpCreateCollection users (JObj [(''indexes'', two_indexes)]) True,
      OpDropCollection users False,
      OpClose False]"

section \<open>Events of an operation\<close>

text \<open>
  An event that an operation on a connection may cause: a method call on the database
  handle \<open>db\<close> of that connection, an \<^verbatim>\<open>ensureIndex\<close> call on a collection, or the
  caller's callback. A constructor call, or a method call on another database handle, is
  not one.
\<close>

fun reuses :: "db_handle \<Rightarrow> event \<Rightarrow> bool" where
  "reuses db (NewServer h pt opts) = False"
| "reuses db (NewDb n srv opts) = False"
| "reuses db (DbCall d m) = (d = db)"
| "reuses db (CollEnsureIndex c i opts) = True"
| "reuses db (Callback e v) = True"

text \<open>\<open>w'\<close> continues \<open>w\<close> with events that all satisfy \<open>P\<close>.\<close>

definition extends :: "(event \<Rightarrow> bool) \<Rightarrow> world \<Rightarrow> world \<Rightarrow> bool" where
  "extends P w w' = (\<exists>evs. trace w' = trace w @ evs \<and> list_all P evs)"

definition appends :: "(event \<Rightarrow> bool) \<Rightarrow> (world \<Rightarrow> world) \<Rightarrow> bool" where
  "appends P f = (\<forall>w. extends P w (f w))"

section \<open>Basic facts\<close>

lemma trace_settle [simp]: "trace (settle p r w) = trace w"
  by (simp add: settle_def)

lemma trace_emit [simp]: "trace (emit e w) = trace w @ [e]"
  by (simp add: emit_def)

lemma cells_emit [simp]: "cells (emit e w) = cells w"
  by (simp add: emit_def)

lemma cells_settle:
  "cells (settle p r w) q = (if q = p \<and> cells w p = Pending then r else cells w q)"
  by (simp add: settle_def)

lemma new_promise_simps [simp]:
  "fst (new_promise w) = fresh w"
  "trace (snd (new_promise w)) = trace w"
  "cells (snd (new_promise w)) (fresh w) = Pending"
  by (simp_all add: new_promise_def)

lemma invoke_closure: "invoke (Closure f) e v = f e v"
  by (rule ext) simp

lemmas chain_defs = then_p_def error_p_def promisified_def direct_call_def close_def
  close_then_reject_def promise_all_def createIndex_def ensureIndexes_def

lemmas world_defs = new_promise_def settle_def emit_def user_cb_def

lemmas input_defs = conn_of_def world_of_def Connection_def buildConnection_def construct_def
  bind_e_def
  anonymous_config_def user_config_def init_world_def two_indexes_def users_def
  users_collection_def boom_def

text \<open>What the constructor returns, when it returns.\<close>

lemma bind_e_Inr: "bind_e m f = Inr y \<longleftrightarrow> (\<exists>x. m = Inr x \<and> f x = Inr y)"
  by (cases m) (simp_all add: bind_e_def)

lemma construct_Inr: "construct drv c w = Inr w' \<Longrightarrow> w' = emit c w"
  by (simp add: construct_def split: reply.splits if_splits)

lemma Connection_fields:
  assumes "Connection cdrv cfg w0 = Inr (self, w1)"
  shows "config self = (if truthy cfg then cfg else JObj []) \<and>
         (\<exists>s np u pw h pt dbn.
           get_prop (config self) ''safe'' = Inr s \<and>
           get_prop (config self) ''nativeParser'' = Inr np \<and>
           get_prop (config self) ''user'' = Inr u \<and>
           get_prop (config self) ''password'' = Inr pw \<and>
           get_prop (config self) ''host'' = Inr h \<and>
           get_prop (config self) ''port'' = Inr pt \<and>
           get_prop (config self) ''database'' = Inr dbn \<and>
           server self = \<lparr>s_host = h, s_port = pt,
             s_options = JObj [(''native_parser'', np),
                               (''auth'', JObj [(''user'', u), (''password'', pw)])]\<rparr> \<and>
           database self = \<lparr>databaseName = dbn, serverConfig = server self,
             db_options = JObj [(''w'', JNum (if truthy s then 1 else 0)),
                                (''native_parser'', np)]\<rparr> \<and>
           w1 = emit (NewDb dbn (server self) (db_options (database self)))
                  (emit (NewServer h pt (s_options (server self))) w0))"
proof -
  let ?c = "if truthy cfg then cfg else JObj []"
  from assms have b: "buildConnection cdrv ?c w0 = Inr (self, w1)"
    by (simp add: Connection_def)
  then obtain s np u pw np' h pt w' dbn where
    r: "get_prop ?c ''safe'' = Inr s" "get_prop ?c ''nativeParser'' = Inr np"
       "get_prop ?c ''user'' = Inr u" "get_prop ?c ''password'' = Inr pw"
       "get_prop ?c ''nativeParser'' = Inr np'" "get_prop ?c ''host'' = Inr h"
       "get_prop ?c ''port'' = Inr pt" "get_prop ?c ''database'' = Inr dbn"
    and c1: "construct cdrv (NewServer h pt (JObj [(''native_parser'', np),
                   (''auth'', JObj [(''user'', u), (''password'', pw)])])) w0 = Inr w'"
    and c2: "construct cdrv (NewDb dbn \<lparr>s_host = h, s_port = pt, s_options =
                 JObj [(''native_parser'', np),
                   (''auth'', JObj [(''user'', u), (''password'', pw)])]\<rparr>
               (JObj [(''w'', if truthy s then JNum 1 else JNum 0), (''native_parser'', np')]))
               w' = Inr w1"
    and self: "self = \<lparr>config = ?c,
          server = \<lparr>s_host = h, s_port = pt, s_options =
                 JObj [(''native_parser'', np),
                   (''auth'', JObj [(''user'', u), (''password'', pw)])]\<rparr>,
          database = \<lparr>databaseName = dbn,
             serverConfig = \<lparr>s_host = h, s_port = pt, s_options =
                 JObj [(''native_parser'', np),
                   (''auth'', JObj [(''user'', u), (''password'', pw)])]\<rparr>,
             db_options = JObj [(''w'', if truthy s then JNum 1 else JNum 0),
                                (''native_parser'', np')]\<rparr>\<rparr>"
    unfolding buildConnection_def bind_e_Inr Let_def by force
  from r(2,5) have np: "np' = np" by simp
  from c1 c2 have w1: "w1 = emit (NewDb dbn \<lparr>s_host = h, s_port = pt, s_options =
                 JObj [(''native_parser'', np),
                   (''auth'', JObj [(''user'', u), (''password'', pw)])]\<rparr>
               (JObj [(''w'', if truthy s then JNum 1 else JNum 0), (''native_parser'', np')]))
            (emit (NewServer h pt (JObj [(''native_parser'', np),
                   (''auth'', JObj [(''user'', u), (''password'', pw)])])) w0)"
    by (auto dest!: construct_Inr)
  have cfg: "config self = ?c"
    using self by simp
  show ?thesis
    apply (rule conjI)
     apply (rule cfg)
    apply (rule exI [of _ s], rule exI [of _ np], rule exI [of _ u], rule exI [of _ pw],
        rule exI [of _ h], rule exI [of _ pt], rule exI [of _ dbn])
    using r np w1 self
    apply simp
    done
qed

lemma Connection_anonymous:
  "Connection accepting anonymous_config init_world =
     Inr (conn_of anonymous_config, world_of anonymous_config)"
  by (simp add: conn_of_def world_of_def Connection_def buildConnection_def construct_def
      bind_e_def anonymous_config_def Let_def)

lemma Connection_user:
  "Connection accepting user_config init_world =
     Inr (conn_of user_config, world_of user_config)"
  by (simp add: conn_of_def world_of_def Connection_def buildConnection_def construct_def
      bind_e_def user_config_def Let_def)

section \<open>An operation only appends events on its own database handle\<close>

lemma extends_refl: "extends P w w"
  by (simp add: extends_def)

lemma extends_trans:
  assumes "extends P w w'" and "extends P w' w''"
  shows "extends P w w''"
proof -
  from assms obtain xs ys where "trace w' = trace w @ xs" "list_all P xs"
    "trace w'' = trace w' @ ys" "list_all P ys"
    unfolding extends_def by blast
  then have "trace w'' = trace w @ (xs @ ys) \<and> list_all P (xs @ ys)"
    by simp
  then show ?thesis
    unfolding extends_def ..
qed

lemma extends_emit: "P e \<Longrightarrow> extends P w (emit e w)"
  by (simp add: extends_def)

lemma extends_settle: "extends P w (settle p r w)"
  by (simp add: extends_def)

lemma appendsD: "appends P f \<Longrightarrow> extends P w (f w)"
  by (simp add: appends_def)

lemma appendsI: "(\<And>w. extends P w (f w)) \<Longrightarrow> appends P f"
  by (simp add: appends_def)

lemma appends_settle: "appends P (settle p r)"
  by (simp add: appends_def extends_settle)

lemma appends_seq:
  assumes "appends P (\<lambda>w. snd (m w))" and "\<And>r. appends P (g r)"
  shows "appends P (\<lambda>w. g (fst (m w)) (snd (m w)))"
proof (rule appendsI)
  fix w
  have "extends P w (snd (m w))"
    using assms(1) by (rule appendsD)
  moreover have "extends P (snd (m w)) (g (fst (m w)) (snd (m w)))"
    using assms(2) by (rule appendsD)
  ultimately show "extends P w (g (fst (m w)) (snd (m w)))"
    by (rule extends_trans)
qed

lemma appends_promisified:
  assumes "P c"
  shows "appends P (\<lambda>w. snd (promisified drv c w))"
  using assms by (auto intro!: appendsI simp add: promisified_def extends_emit split: reply.splits)

lemma appends_direct_call:
  assumes "P c"
  shows "appends P (\<lambda>w. snd (direct_call drv c w))"
  using assms by (auto intro!: appendsI simp add: direct_call_def extends_emit split: reply.splits)

lemma appends_then_p:
  assumes m: "appends P (\<lambda>w. snd (m w))" and f: "\<And>v. appends P (\<lambda>w. snd (f v w))"
  shows "appends P (\<lambda>w. snd (then_p m f w))"
proof -
  let ?g = "\<lambda>r w'. snd (case r of Fulfilled v \<Rightarrow> f v w' | Rejected e \<Rightarrow> (Rejected e, w')
                        | Pending \<Rightarrow> (Pending, w'))"
  have "appends P (?g r)" for r
    using f by (cases r) (simp_all add: appends_def extends_refl)
  with m have "appends P (\<lambda>w. ?g (fst (m w)) (snd (m w)))"
    by (rule appends_seq)
  then show ?thesis
    by (simp add: then_p_def split_def Let_def)
qed

lemma appends_error_p:
  assumes m: "appends P (\<lambda>w. snd (m w))" and f: "\<And>e. appends P (\<lambda>w. snd (f e w))"
  shows "appends P (\<lambda>w. snd (error_p m f w))"
proof -
  let ?g = "\<lambda>r w'. snd (case r of
                Rejected e \<Rightarrow> if is_operational e then f e w' else (Rejected e, w')
              | Fulfilled v \<Rightarrow> (Fulfilled v, w')
              | Pending \<Rightarrow> (Pending, w'))"
  have "appends P (?g r)" for r
    using f by (cases r) (simp_all add: appends_def extends_refl)
  with m have "appends P (\<lambda>w. ?g (fst (m w)) (snd (m w)))"
    by (rule appends_seq)
  then show ?thesis
    by (simp add: error_p_def split_def Let_def)
qed

lemma appends_nodeify:
  assumes "\<And>e v. appends P (invoke cb e v)"
  shows "appends P (nodeify (Some cb) r)"
  using assms by (cases r) (simp_all add: appends_def extends_refl)

lemma appends_nodeify_user:
  assumes "\<And>e v. P (Callback e v)"
  shows "appends P (nodeify (user_cb b) r)"
  using assms by (cases r; cases b) (simp_all add: appends_def user_cb_def extends_refl extends_emit)

lemma appends_close:
  assumes "P (DbCall (database self) Close)" and "\<And>r. appends P (nodeify cb r)"
  shows "appends P (\<lambda>w. snd (close drv self cb w))"
proof -
  have "appends P (\<lambda>w. snd (promisified drv (DbCall (database self) Close) w))"
    using assms(1) by (rule appends_promisified)
  then have "appends P (\<lambda>w. nodeify cb (fst (promisified drv (DbCall (database self) Close) w))
                                 (snd (promisified drv (DbCall (database self) Close) w)))"
    using assms(2) by (rule appends_seq)
  then show ?thesis
    by (simp add: close_def split_def Let_def)
qed

text \<open>A function that creates its promise, runs the executor and registers the callback.\<close>

lemma appends_new_promise:
  assumes "\<And>p. appends P (body p)" and "\<And>r. appends P (nodeify cb r)"
  shows "appends P (\<lambda>w0. nodeify cb (cells (body (fst (new_promise w0)) (snd (new_promise w0)))
                                      (fst (new_promise w0)))
                          (body (fst (new_promise w0)) (snd (new_promise w0))))"
proof (rule appendsI)
  fix w0
  let ?p = "fst (new_promise w0)" and ?w = "snd (new_promise w0)"
  have "extends P w0 ?w"
    by (simp add: extends_def)
  moreover have "extends P ?w (body ?p ?w)"
    using assms(1) by (rule appendsD)
  moreover have "extends P (body ?p ?w) (nodeify cb (cells (body ?p ?w) ?p) (body ?p ?w))"
    using assms(2) by (rule appendsD)
  ultimately show "extends P w0 (nodeify cb (cells (body ?p ?w) ?p) (body ?p ?w))"
    by (blast intro: extends_trans)
qed

lemma appends_close_then_reject:
  "appends (reuses (database self)) (\<lambda>w. snd (close_then_reject drv self p err w))"
  unfolding close_then_reject_def
  by (intro appends_then_p appends_close) (simp_all add: appends_def extends_refl extends_settle)

lemma appends_ensureIndexes:
  assumes "\<And>r. appends (reuses db) (nodeify cb r)"
  shows "appends (reuses db) (\<lambda>w. snd (ensureIndexes drv collection indexes cb w))"
proof -
  let ?m = "then_p (promise_all indexes) (createIndex drv collection)"
  have "appends (reuses db) (\<lambda>w. snd (promise_all indexes w))"
    by (simp add: appends_def promise_all_def extends_refl split: jsval.splits)
  moreover have "appends (reuses db) (\<lambda>w. snd (createIndex drv collection item w))" for item
    using appends_direct_call [of "reuses db" _ drv]
    by (simp add: createIndex_def appends_def extends_refl split: sum.splits)
  ultimately have "appends (reuses db) (\<lambda>w. snd (?m w))"
    by (rule appends_then_p)
  then have "appends (reuses db) (\<lambda>w. nodeify cb (fst (?m w)) (snd (?m w)))"
    using assms by (rule appends_seq)
  then show ?thesis
    by (simp add: ensureIndexes_def split_def Let_def)
qed

lemma appends_authenticate_body:
  "appends (reuses (database self)) (authenticate_body drv self p)"
proof -
  let ?P = "reuses (database self)"
  have cl: "appends ?P (\<lambda>w. snd (close drv self (Some (Closure f)) w))"
    if "\<And>e v. appends ?P (f e v)" for f
    using that by (intro appends_close appends_nodeify) (simp_all add: invoke_closure)
  have reject_cb: "appends ?P (\<lambda>w. snd (close drv self
                         (Some (Closure (\<lambda>_ _ w2.
                            if truthy err then settle p (Rejected err) w2
                            else settle p (Rejected generic_auth_error) w2)))
                         w))" for err
    by (rule cl) (simp add: appends_def extends_settle)
  have chain: "appends ?P (\<lambda>w. snd (error_p
                   (then_p
                      (promisified drv
                         (DbCall (database self) (Authenticate a b)))
                      (\<lambda>success w1. (Fulfilled JUndefined, settle p (Fulfilled JUndefined) w1)))
                   (\<lambda>err w1.
                      (Fulfilled JUndefined,
                       snd (close drv self
                         (Some (Closure (\<lambda>_ _ w2.
                            if truthy err then settle p (Rejected err) w2
                            else settle p (Rejected generic_auth_error) w2)))
                         w1)))
                   w))" for a b
    by (intro appends_error_p appends_then_p appends_promisified)
       (simp_all add: appends_settle reject_cb)
  show ?thesis
    by (auto intro!: appendsI chain [THEN appendsD]
        simp add: authenticate_body_def Let_def extends_settle split: sum.splits)
qed

lemma appends_user_cb: "appends (reuses db) (nodeify (user_cb b) r)"
  by (rule appends_nodeify_user) simp

lemma appends_authenticate:
  "appends (reuses (database self)) (\<lambda>w. snd (authenticate drv self (user_cb b) w))"
proof -
  have "appends (reuses (database self))
          (\<lambda>w0. nodeify (user_cb b)
             (cells (authenticate_body drv self (fst (new_promise w0)) (snd (new_promise w0)))
                (fst (new_promise w0)))
             (authenticate_body drv self (fst (new_promise w0)) (snd (new_promise w0))))"
    by (rule appends_new_promise) (rule appends_authenticate_body appends_user_cb)+
  then show ?thesis
    by (simp add: authenticate_def split_def Let_def)
qed

lemma appends_open_conn:
  "appends (reuses (database self)) (\<lambda>w. snd (open_conn drv self (user_cb b) w))"
proof -
  have "appends (reuses (database self)) (open_body drv self (user_cb b) p)" for p
    unfolding open_body_def
    by (intro appends_error_p appends_then_p appends_promisified appends_authenticate)
       (simp_all add: appends_def extends_settle)
  then have "appends (reuses (database self))
          (\<lambda>w0. nodeify (user_cb b)
             (cells (open_body drv self (user_cb b) (fst (new_promise w0)) (snd (new_promise w0)))
                (fst (new_promise w0)))
             (open_body drv self (user_cb b) (fst (new_promise w0)) (snd (new_promise w0))))"
    by (rule appends_new_promise) (rule appends_user_cb)
  then show ?thesis
    by (simp add: open_conn_def split_def Let_def)
qed

lemma appends_dropCollection:
  "appends (reuses (database self)) (\<lambda>w. snd (dropCollection drv self name (user_cb b) w))"
proof -
  have "appends (reuses (database self)) (dropCollection_body drv self name p)" for p
    unfolding dropCollection_body_def
    by (intro appends_then_p appends_promisified appends_close_then_reject) simp_all
  then have "appends (reuses (database self))
          (\<lambda>w0. nodeify (user_cb b)
             (cells (dropCollection_body drv self name (fst (new_promise w0)) (snd (new_promise w0)))
                (fst (new_promise w0)))
             (dropCollection_body drv self name (fst (new_promise w0)) (snd (new_promise w0))))"
    by (rule appends_new_promise) (rule appends_user_cb)
  then show ?thesis
    by (simp add: dropCollection_def split_def Let_def)
qed

lemma appends_createCollection:
  "appends (reuses (database self))
     (\<lambda>w. snd (createCollection drv self name collection (user_cb b) w))"
proof -
  let ?P = "reuses (database self)"
  have cb: "appends ?P (nodeify
              (Some (Closure (\<lambda>err _ w2. snd (close_then_reject drv self p err w2)))) r)" for p r
    by (rule appends_nodeify) (simp add: invoke_closure appends_close_then_reject)
  have handler: "appends ?P (\<lambda>w1. snd
             (case get_prop collection ''indexes'' of
                  Inl e \<Rightarrow> (Rejected e, w1)
                | Inr indexes \<Rightarrow>
                    ensureIndexes drv result indexes
                      (Some (Closure (\<lambda>err _ w2. snd (close_then_reject drv self p err w2))))
                      w1))" for result p
    using appends_ensureIndexes [of "database self", OF cb]
    by (cases "get_prop collection ''indexes''") (simp_all add: appends_def extends_refl)
  have "appends ?P (createCollection_body drv self name collection p)" for p
    unfolding createCollection_body_def
    by (intro appends_then_p appends_error_p appends_promisified appends_close_then_reject
        handler) simp_all
  then have "appends ?P
          (\<lambda>w0. nodeify (user_cb b)
             (cells (createCollection_body drv self name collection
                       (fst (new_promise w0)) (snd (new_promise w0)))
                (fst (new_promise w0)))
             (createCollection_body drv self name collection
                (fst (new_promise w0)) (snd (new_promise w0))))"
    by (rule appends_new_promise) (rule appends_user_cb)
  then show ?thesis
    by (simp add: createCollection_def split_def Let_def)
qed

lemma run_op_reuses: "extends (reuses (database self)) w (run_op drv self x w)"
proof (cases x)
  case (OpOpen b)
  then show ?thesis using appends_open_conn [THEN appendsD] by simp
next
  case (OpClose b)
  have "appends (reuses (database self)) (\<lambda>w. snd (close drv self (user_cb b) w))"
    by (rule appends_close) (simp_all add: appends_user_cb)
  with OpClose show ?thesis by (simp add: appends_def)
next
  case (OpAuthenticate b)
  then show ?thesis using appends_authenticate [THEN appendsD] by simp
next
  case (OpCreateCollection name collection b)
  then show ?thesis using appends_createCollection [THEN appendsD] by simp
next
  case (OpDropCollection name b)
  then show ?thesis using appends_dropCollection [THEN appendsD] by simp
next
  case (OpEnsureIndexes collection indexes b)
  have "appends (reuses (database self))
          (\<lambda>w. snd (ensureIndexes drv collection indexes (user_cb b) w))"
    by (rule appends_ensureIndexes) (rule appends_user_cb)
  with OpEnsureIndexes show ?thesis by (simp add: appends_def)
qed

lemma run_ops_reuses: "extends (reuses (database self)) w (run_ops drv self ops w)"
proof (induction ops arbitrary: w)
  case Nil
  show ?case by (simp add: extends_refl)
next
  case (Cons x xs)
  have "extends (reuses (database self)) w (run_op drv self x w)"
    by (rule run_op_reuses)
  moreover have "extends (reuses (database self)) (run_op drv self x w)
                   (run_ops drv self xs (run_op drv self x w))"
    by (rule Cons.IH)
  ultimately show ?case
    by (simp add: extends_trans)
qed

section \<open>Construction\<close>

text \<open>
  Claim C10, amended. \<^verbatim>\<open>new Connection()\<close> with no configuration argument raises no
  error of its own: the configuration becomes the empty record, no property read fails,
  and the construction is that of \<open>buildConnection\<close> on the empty record, the same
  \<open>buildConnection\<close> that builds from a populated configuration. The \<^verbatim>\<open>Server\<close>
  constructor is called with \<^verbatim>\<open>undefined\<close> as host and port and with \<^verbatim>\<open>undefined\<close>
  credentials, then the \<^verbatim>\<open>Db\<close> constructor with \<^verbatim>\<open>undefined\<close> as database name and write
  level 0. The construction throws exactly what the first of the two constructors to
  throw on these arguments throws, and returns the connection holding both handles when
  neither does.
\<close>

theorem Connection_without_config:
  "Connection drv JUndefined w = buildConnection drv (JObj []) w \<and>
   Connection drv (JObj kvs) w = buildConnection drv (JObj kvs) w \<and>
   Connection drv JUndefined w =
     (case drv (trace w)
             (NewServer JUndefined JUndefined
                (JObj [(''native_parser'', JUndefined),
                  (''auth'', JObj [(''user'', JUndefined), (''password'', JUndefined)])])) of
        Reply e1 r1 \<Rightarrow>
          if truthy e1 then Inl e1
          else
            (case drv (trace w @
                        [NewServer JUndefined JUndefined
                           (JObj [(''native_parser'', JUndefined),
                             (''auth'', JObj [(''user'', JUndefined),
                                              (''password'', JUndefined)])])])
                    (NewDb JUndefined
                       \<lparr>s_host = JUndefined, s_port = JUndefined,
                        s_options = JObj [(''native_parser'', JUndefined),
                          (''auth'', JObj [(''user'', JUndefined), (''password'', JUndefined)])]\<rparr>
                       (JObj [(''w'', JNum 0), (''native_parser'', JUndefined)])) of
               Reply e2 r2 \<Rightarrow>
                 if truthy e2 then Inl e2
                 else
                   Inr (\<lparr>config = JObj [],
                         server = \<lparr>s_host = JUndefined, s_port = JUndefined,
                           s_options = JObj [(''native_parser'', JUndefined),
                             (''auth'', JObj [(''user'', JUndefined),
                                              (''password'', JUndefined)])]\<rparr>,
                         database = \<lparr>databaseName = JUndefined,
                           serverConfig = \<lparr>s_host = JUndefined, s_port = JUndefined,
                             s_options = JObj [(''native_parser'', JUndefined),
                               (''auth'', JObj [(''user'', JUndefined),
                                                (''password'', JUndefined)])]\<rparr>,
                           db_options =
                             JObj [(''w'', JNum 0), (''native_parser'', JUndefined)]\<rparr>\<rparr>,
                        emit (NewDb JUndefined
                               \<lparr>s_host = JUndefined, s_port = JUndefined,
                                s_options = JObj [(''native_parser'', JUndefined),
                                  (''auth'', JObj [(''user'', JUndefined),
                                                   (''password'', JUndefined)])]\<rparr>
                               (JObj [(''w'', JNum 0), (''native_parser'', JUndefined)]))
                          (emit (NewServer JUndefined JUndefined
                                  (JObj [(''native_parser'', JUndefined),
                                    (''auth'', JObj [(''user'', JUndefined),
                                                     (''password'', JUndefined)])]))
                             w))))"
  by (simp add: Connection_def buildConnection_def construct_def bind_e_def Let_def
      split: reply.splits)

text \<open>
  Claim C10 as stated has the construction never throw. With a driver whose \<^verbatim>\<open>Db\<close>
  constructor refuses a database name that is not a string, \<^verbatim>\<open>new Connection()\<close> throws
  that constructor's error.
\<close>

theorem Connection_without_config_counterexample:
  "Connection strict_names JUndefined init_world =
     Inl (JError ''database name must be a string'')"
  by (simp add: Connection_def buildConnection_def construct_def bind_e_def Let_def
      init_world_def)

text \<open>
  Claim C8. A construction that returns holds the configuration it was given (the empty
  record when none was given) and two handles built from it: the server from its host,
  port, parser flag and credentials, the database from its database name, that server,
  the parser flag and the write level \<^verbatim>\<open>w\<close>, which is 1 when the \<^verbatim>\<open>safe\<close> flag of that
  configuration is truthy (the boolean \<^verbatim>\<open>true\<close>) and 0 otherwise. Construction causes
  exactly two events, the call of the \<^verbatim>\<open>Server\<close> constructor and the call of the \<^verbatim>\<open>Db\<close>
  constructor on that server, and no method call on either handle (no network I/O).
  Every event caused by any sequence of open, close, authenticate, createCollection,
  dropCollection and ensureIndexes on that connection, under any driver, is a method call
  on that one database handle, an \<^verbatim>\<open>ensureIndex\<close> call or a callback of the caller: no
  constructor is called again and no other handle is used.
\<close>

theorem handles_built_once_and_reused:
  assumes "Connection cdrv cfg w0 = Inr (self, w1)"
  shows "config self = (if truthy cfg then cfg else JObj []) \<and>
         (\<exists>s np u pw h pt dbn.
           get_prop (config self) ''safe'' = Inr s \<and>
           get_prop (config self) ''nativeParser'' = Inr np \<and>
           get_prop (config self) ''user'' = Inr u \<and>
           get_prop (config self) ''password'' = Inr pw \<and>
           get_prop (config self) ''host'' = Inr h \<and>
           get_prop (config self) ''port'' = Inr pt \<and>
           get_prop (config self) ''database'' = Inr dbn \<and>
           server self = \<lparr>s_host = h, s_port = pt,
             s_options = JObj [(''native_parser'', np),
                               (''auth'', JObj [(''user'', u), (''password'', pw)])]\<rparr> \<and>
           database self = \<lparr>databaseName = dbn, serverConfig = server self,
             db_options = JObj [(''w'', JNum (if truthy s then 1 else 0)),
                                (''native_parser'', np)]\<rparr>) \<and>
         trace w1 = trace w0 @
           [NewServer (s_host (server self)) (s_port (server self)) (s_options (server self)),
            NewDb (databaseName (database self)) (server self) (db_options (database self))] \<and>
         (\<exists>evs. trace (run_ops drv self ops w1) = trace w1 @ evs \<and>
                list_all (reuses (database self)) evs)"
proof -
  from Connection_fields [OF assms] obtain s np u pw h pt dbn where
    c: "config self = (if truthy cfg then cfg else JObj [])"
    and f: "get_prop (config self) ''safe'' = Inr s"
       "get_prop (config self) ''nativeParser'' = Inr np"
       "get_prop (config self) ''user'' = Inr u"
       "get_prop (config self) ''password'' = Inr pw"
       "get_prop (config self) ''host'' = Inr h"
       "get_prop (config self) ''port'' = Inr pt"
       "get_prop (config self) ''database'' = Inr dbn"
       "server self = \<lparr>s_host = h, s_port = pt,
             s_options = JObj [(''native_parser'', np),
                               (''auth'', JObj [(''user'', u), (''password'', pw)])]\<rparr>"
       "database self = \<lparr>databaseName = dbn, serverConfig = server self,
             db_options = JObj [(''w'', JNum (if truthy s then 1 else 0)),
                                (''native_parser'', np)]\<rparr>"
    and w1: "w1 = emit (NewDb dbn (server self) (db_options (database self)))
                  (emit (NewServer h pt (s_options (server self))) w0)"
    by blast
  have "trace w1 = trace w0 @
           [NewServer (s_host (server self)) (s_port (server self)) (s_options (server self)),
            NewDb (databaseName (database self)) (server self) (db_options (database self))]"
    using f(8,9) w1 by simp
  moreover from run_ops_reuses [of self w1 drv ops]
  have "\<exists>evs. trace (run_ops drv self ops w1) = trace w1 @ evs \<and>
                list_all (reuses (database self)) evs"
    by (simp add: extends_def)
  ultimately show ?thesis
    using c f by blast
qed

text \<open>
  The statement at a configuration with \<^verbatim>\<open>safe: true\<close> and at one with \<^verbatim>\<open>safe: false\<close>,
  with an accepting driver and the sequence open, createCollection (with a callback),
  dropCollection, close.
\<close>

theorem handles_built_once_and_reused_witness:
  "Connection accepting anonymous_config init_world =
     Inr (conn_of anonymous_config, world_of anonymous_config) \<and>
   config (conn_of anonymous_config) = anonymous_config \<and>
   get_prop (db_options (database (conn_of anonymous_config))) ''w'' = Inr (JNum 1) \<and>
   get_prop (db_options (database (conn_of user_config))) ''w'' = Inr (JNum 0) \<and>
   trace (world_of anonymous_config) = trace init_world @
     [NewServer (s_host (server (conn_of anonymous_config)))
        (s_port (server (conn_of anonymous_config)))
        (s_options (server (conn_of anonymous_config))),
      NewDb (databaseName (database (conn_of anonymous_config)))
        (server (conn_of anonymous_config))
        (db_options (database (conn_of anonymous_config)))] \<and>
   (\<exists>evs. trace (run_ops accepting (conn_of anonymous_config) example_ops
                  (world_of anonymous_config)) =
            trace (world_of anonymous_config) @ evs \<and>
          list_all (reuses (database (conn_of anonymous_config))) evs)"
proof -
  note a = handles_built_once_and_reused [OF Connection_anonymous, of accepting example_ops]
  note u = handles_built_once_and_reused [OF Connection_user, of accepting "[]"]
  have ta: "truthy anonymous_config" and tu: "truthy user_config"
    by (simp_all add: anonymous_config_def user_config_def)
  from a ta have ca: "config (conn_of anonymous_config) = anonymous_config"
    by simp
  from u tu have cu: "config (conn_of user_config) = user_config"
    by simp
  from a ca have "get_prop (db_options (database (conn_of anonymous_config))) ''w'' =
                    Inr (JNum 1)"
    by (auto simp add: anonymous_config_def)
  moreover from u cu have "get_prop (db_options (database (conn_of user_config))) ''w'' =
                    Inr (JNum 0)"
    by (auto simp add: user_config_def)
  ultimately show ?thesis
    using a ca Connection_anonymous by blast
qed

section \<open>authenticate\<close>

text \<open>
  Claim C7. For a connection built from a configuration whose \<^verbatim>\<open>user\<close> and \<^verbatim>\<open>password\<close>
  are both unset (falsy, as the source tests them), \<^verbatim>\<open>authenticate\<close> fulfils its promise
  at once and calls no driver method: the only possible event is the caller's callback,
  invoked with a null error. Otherwise, so in particular when exactly one of the two is
  set, the first event is the driver's authentication call, with the empty string in
  place of each credential that is not set.
\<close>

theorem authenticate_credentials:
  assumes "Connection cdrv cfg w0 = Inr (self, w1)"
      and "get_prop (config self) ''user'' = Inr u"
      and "get_prop (config self) ''password'' = Inr pw"
  shows "if \<not> truthy u \<and> \<not> truthy pw
         then fst (authenticate drv self (user_cb b) w) = Fulfilled JUndefined \<and>
              trace (snd (authenticate drv self (user_cb b) w)) =
                trace w @ (if b then [Callback JNull JUndefined] else [])
         else \<exists>rest. trace (snd (authenticate drv self (user_cb b) w)) =
                trace w @ DbCall (database self)
                  (Authenticate (if truthy u then u else JStr [])
                                (if truthy pw then pw else JStr [])) # rest"
proof -
  from Connection_fields [OF assms(1)] assms(2,3)
  have au: "auth_field (s_options (serverConfig (database self))) ''user'' = Inr u"
    and ap: "auth_field (s_options (serverConfig (database self))) ''password'' = Inr pw"
    by (auto simp add: auth_field_def bind_e_def)
  show ?thesis
  proof (cases "\<not> truthy u \<and> \<not> truthy pw")
    case True
    then show ?thesis
      using au ap
      by (simp add: authenticate_def authenticate_body_def Let_def split_def user_cb_def
          cells_settle)
  next
    case False
    then show ?thesis
      using au ap
      by (auto simp add: authenticate_def authenticate_body_def Let_def split_def user_cb_def
          cells_settle chain_defs or_empty_def split: reply.splits)
  qed
qed

text \<open>
  The statement at a configuration with no credentials, and at one with the user
  \<^verbatim>\<open>bob\<close> and no password.
\<close>

theorem authenticate_credentials_witness:
  "fst (authenticate accepting (conn_of anonymous_config) (user_cb False) init_world) =
     Fulfilled JUndefined \<and>
   trace (snd (authenticate accepting (conn_of anonymous_config) (user_cb False) init_world)) =
     [] \<and>
   (\<exists>rest. trace (snd (authenticate accepting (conn_of user_config) (user_cb False)
                         init_world)) =
      DbCall (database (conn_of user_config)) (Authenticate (JStr ''bob'') (JStr [])) # rest)"
proof -
  have a: "get_prop (config (conn_of anonymous_config)) ''user'' = Inr JUndefined"
    "get_prop (config (conn_of anonymous_config)) ''password'' = Inr JUndefined"
    by (simp_all add: input_defs Let_def)
  have u: "get_prop (config (conn_of user_config)) ''user'' = Inr (JStr ''bob'')"
    "get_prop (config (conn_of user_config)) ''password'' = Inr JUndefined"
    by (simp_all add: input_defs Let_def)
  from authenticate_credentials [OF Connection_anonymous a, of accepting False init_world]
    authenticate_credentials [OF Connection_user u, of accepting False init_world]
  show ?thesis
    by (simp add: init_world_def)
qed

text \<open>
  When credentials are configured and the driver's authentication call reports an error,
  \<^verbatim>\<open>authenticate\<close> calls close next, and its promise is rejected with the driver's error
  (as the promisified call delivers it, marked operational) whatever the close answers.
\<close>

lemma authenticate_failure_closes_then_rejects:
  assumes "auth_field (s_options (serverConfig (database self))) ''user'' = Inr u"
      and "auth_field (s_options (serverConfig (database self))) ''password'' = Inr pw"
      and "truthy u \<or> truthy pw"
      and "drv (trace w)
             (DbCall (database self) (Authenticate (or_empty u) (or_empty pw))) =
           Reply err res"
      and "truthy err"
  shows "fst (authenticate drv self (user_cb b) w) = Rejected (JOperational err) \<and>
         trace (snd (authenticate drv self (user_cb b) w)) =
           trace w @ [DbCall (database self) (Authenticate (or_empty u) (or_empty pw)),
                      DbCall (database self) Close]
                   @ (if b then [Callback (JOperational err) JUndefined] else [])"
  using assms
  by (simp add: authenticate_def authenticate_body_def Let_def split_def chain_defs
      user_cb_def cells_settle split: reply.splits)

text \<open>
  Claim C6 says that whenever the driver's authentication fails the connection is closed
  and the promise is then rejected, with the driver's error when there is one and with
  the generic error otherwise. The source with the user \<^verbatim>\<open>bob\<close>, a callback, and a driver
  that reports the authentication as unsuccessful without an error, answering
  \<open>(null, false)\<close>: the then-handler does not look at the answer, close is never called,
  the promise is fulfilled and the callback is told of a success. The generic error is
  created only in the \<^verbatim>\<open>.error\<close> handler, which runs only on a truthy error.
\<close>

theorem authenticate_unsuccessful_fulfils:
  "fst (authenticate unsuccessful_authenticate (conn_of user_config) (user_cb True)
          init_world) = Fulfilled JUndefined \<and>
   trace (snd (authenticate unsuccessful_authenticate (conn_of user_config) (user_cb True)
                 init_world)) =
     [DbCall (database (conn_of user_config)) (Authenticate (JStr ''bob'') (JStr [])),
      Callback JNull JUndefined]"
  by (simp add: authenticate_def authenticate_body_def auth_field_def or_empty_def
      chain_defs world_defs input_defs cells_settle Let_def split_def)

section \<open>Promises that are never fulfilled\<close>

text \<open>
  The executors of \<^verbatim>\<open>open\<close>, \<^verbatim>\<open>createCollection\<close> and \<^verbatim>\<open>dropCollection\<close> never call
  \<^verbatim>\<open>resolve\<close>: whatever the driver answers, the promise they return is rejected or stays
  pending.
\<close>

lemma open_conn_never_fulfilled:
  "fst (open_conn drv self (user_cb b) w) \<noteq> Fulfilled v"
  by (simp add: open_conn_def open_body_def authenticate_def authenticate_body_def
      chain_defs world_defs Let_def split_def
      split: reply.splits sum.splits)

lemma createCollection_never_fulfilled:
  "fst (createCollection drv self name collection (user_cb b) w) \<noteq> Fulfilled v"
  by (simp add: createCollection_def createCollection_body_def
      chain_defs world_defs Let_def split_def
      split: reply.splits sum.splits jsval.splits)

lemma dropCollection_never_fulfilled:
  "fst (dropCollection drv self name (user_cb b) w) \<noteq> Fulfilled v"
  by (simp add: dropCollection_def dropCollection_body_def
      chain_defs world_defs Let_def split_def
      split: reply.splits sum.splits)

section \<open>ensureIndexes\<close>

text \<open>
  Whatever the array of index specifications holds, \<^verbatim>\<open>ensureIndexes\<close> makes one driver
  call, and its two arguments are the properties \<^verbatim>\<open>index\<close> and \<^verbatim>\<open>options\<close> of the array
  itself, which are undefined.
\<close>

lemma ensureIndexes_single_call:
  "trace (snd (ensureIndexes drv coll (JArr xs) None w)) =
     trace w @ [CollEnsureIndex coll JUndefined JUndefined]"
  by (simp add: chain_defs Let_def split_def split: reply.splits)

text \<open>
  Claim C1 says that \<^verbatim>\<open>ensureIndexes\<close> calls the driver's \<^verbatim>\<open>ensureIndex\<close> once for each
  specification, with that specification's index definition and options. The source at a
  list of two specifications, \<open>{index: name, options: {unique: true}}\<close> and
  \<open>{index: email, options: {}}\<close>, with a driver that accepts every call: the driver is
  called once, with undefined for both arguments, and the promise is fulfilled.
\<close>

theorem ensureIndexes_two_specs:
  "fst (ensureIndexes accepting users_collection two_indexes None init_world) =
     Fulfilled (JStr ''ok'') \<and>
   trace (snd (ensureIndexes accepting users_collection two_indexes None init_world)) =
     [CollEnsureIndex users_collection JUndefined JUndefined]"
  by (simp add: chain_defs world_defs input_defs Let_def split_def)

section \<open>open\<close>

text \<open>
  Claim C2 says that the promise \<^verbatim>\<open>open\<close> returns resolves when authentication succeeds,
  or at once when no credentials are configured. The source with a driver that accepts
  every call: without credentials the connection is opened and the returned promise stays
  pending; with the user \<^verbatim>\<open>bob\<close> the connection is opened and authenticated and the
  returned promise stays pending as well.
\<close>

theorem open_conn_stays_pending:
  "fst (open_conn accepting (conn_of anonymous_config) None init_world) = Pending \<and>
   trace (snd (open_conn accepting (conn_of anonymous_config) None init_world)) =
     [DbCall (database (conn_of anonymous_config)) Open] \<and>
   fst (open_conn accepting (conn_of user_config) None init_world) = Pending \<and>
   trace (snd (open_conn accepting (conn_of user_config) None init_world)) =
     [DbCall (database (conn_of user_config)) Open,
      DbCall (database (conn_of user_config)) (Authenticate (JStr ''bob'') (JStr []))]"
  by (simp add: open_conn_def open_body_def authenticate_def authenticate_body_def
      auth_field_def or_empty_def chain_defs world_defs input_defs Let_def split_def)

text \<open>
  The failures do reach the caller: an error of the driver's open call, or of its
  authentication call, rejects the promise \<^verbatim>\<open>open\<close> returns.
\<close>

lemma open_conn_rejects_on_failure:
  "fst (open_conn failing_open (conn_of user_config) None init_world) =
     Rejected (JOperational boom) \<and>
   fst (open_conn failing_authenticate (conn_of user_config) None init_world) =
     Rejected (JOperational boom)"
  by (simp add: open_conn_def open_body_def authenticate_def authenticate_body_def
      auth_field_def or_empty_def chain_defs world_defs input_defs Let_def split_def)

section \<open>dropCollection\<close>

text \<open>
  Claim C3, amended. When the driver's open call and its drop call both succeed,
  \<^verbatim>\<open>dropCollection\<close> hands the result of the drop to the close-then-reject path: close is
  called next, and the returned promise is rejected with the result of the drop once the
  close has succeeded; it stays pending when the close reports an error.
\<close>

theorem dropCollection_result_routed_to_reject:
  assumes "drv (trace w) (DbCall (database self) Open) = Reply e1 r1" and "\<not> truthy e1"
      and "drv (trace w @ [DbCall (database self) Open])
             (DbCall (database self) (DropCollection name)) = Reply e2 res"
      and "\<not> truthy e2"
      and "drv (trace w @ [DbCall (database self) Open,
                           DbCall (database self) (DropCollection name)])
             (DbCall (database self) Close) = Reply e3 r3"
  shows "trace (snd (dropCollection drv self name None w)) =
           trace w @ [DbCall (database self) Open,
                      DbCall (database self) (DropCollection name),
                      DbCall (database self) Close] \<and>
         fst (dropCollection drv self name None w) =
           (if truthy e3 then Pending else Rejected res)"
  using assms
  by (simp add: dropCollection_def dropCollection_body_def chain_defs world_defs
      Let_def split_def)

text \<open>The statement for a driver that accepts every call.\<close>

theorem dropCollection_result_routed_to_reject_witness:
  "trace (snd (dropCollection accepting (conn_of anonymous_config) users None init_world)) =
     [DbCall (database (conn_of anonymous_config)) Open,
      DbCall (database (conn_of anonymous_config)) (DropCollection users),
      DbCall (database (conn_of anonymous_config)) Close] \<and>
   fst (dropCollection accepting (conn_of anonymous_config) users None init_world) =
     Rejected (JStr ''ok'')"
proof -
  have t: "trace init_world = []"
    by (simp add: init_world_def)
  have h: "\<not> truthy JNull"
    by simp
  have h1: "accepting (trace init_world) (DbCall (database (conn_of anonymous_config)) Open) =
              Reply JNull (JStr ''ok'')"
    and h2: "accepting (trace init_world @ [DbCall (database (conn_of anonymous_config)) Open])
              (DbCall (database (conn_of anonymous_config)) (DropCollection users)) =
              Reply JNull (JStr ''ok'')"
    and h3: "accepting (trace init_world @ [DbCall (database (conn_of anonymous_config)) Open,
                DbCall (database (conn_of anonymous_config)) (DropCollection users)])
              (DbCall (database (conn_of anonymous_config)) Close) =
              Reply JNull (JStr ''ok'')"
    by simp_all
  from dropCollection_result_routed_to_reject
    [where drv = accepting and w = init_world, OF h1 h h2 h h3] t
  show ?thesis
    by simp
qed

text \<open>
  Claim C3 as stated covers every call in which the open succeeds. With a driver whose
  drop call reports an error, the open succeeds, close is never called and the returned
  promise stays pending. With a driver whose close call reports an error, the drop succeeds
  and the returned promise stays pending too.
\<close>

theorem dropCollection_counterexample:
  "fst (dropCollection failing_drop (conn_of anonymous_config) users None init_world) =
     Pending \<and>
   trace (snd (dropCollection failing_drop (conn_of anonymous_config) users None
                 init_world)) =
     [DbCall (database (conn_of anonymous_config)) Open,
      DbCall (database (conn_of anonymous_config)) (DropCollection users)] \<and>
   fst (dropCollection failing_close (conn_of anonymous_config) users None init_world) =
     Pending"
  by (simp add: dropCollection_def dropCollection_body_def
      chain_defs world_defs input_defs Let_def split_def)

section \<open>createCollection\<close>

text \<open>
  Claim C4 says that every error reaches the caller as a rejection, and through the
  callback when one is supplied, and names a failure of the open step inside
  \<^verbatim>\<open>createCollection\<close> and \<^verbatim>\<open>dropCollection\<close>. The source with a driver whose open call
  reports an error, and a callback: in both operations the open call is the only event,
  the callback is never invoked and the returned promise stays pending.
\<close>

theorem open_failure_not_surfaced:
  "fst (createCollection failing_open (conn_of anonymous_config) users
          (JObj [(''indexes'', two_indexes)]) (user_cb True) init_world) = Pending \<and>
   trace (snd (createCollection failing_open (conn_of anonymous_config) users
          (JObj [(''indexes'', two_indexes)]) (user_cb True) init_world)) =
     [DbCall (database (conn_of anonymous_config)) Open] \<and>
   fst (dropCollection failing_open (conn_of anonymous_config) users (user_cb True) init_world)
     = Pending \<and>
   trace (snd (dropCollection failing_open (conn_of anonymous_config) users (user_cb True)
          init_world)) =
     [DbCall (database (conn_of anonymous_config)) Open]"
  by (simp add: createCollection_def createCollection_body_def
      dropCollection_def dropCollection_body_def
      chain_defs world_defs input_defs Let_def split_def)

text \<open>
  When the open, the creation of the collection and the creation of the indexes succeed,
  the promise \<^verbatim>\<open>createCollection\<close> returns is never fulfilled; it is rejected with a null
  reason once the close that follows has succeeded, and stays pending when that close
  reports an error.
\<close>

lemma createCollection_success_outcome:
  assumes "drv (trace w) (DbCall (database self) Open) = Reply e1 r1" and "\<not> truthy e1"
      and "drv (trace w @ [DbCall (database self) Open])
             (DbCall (database self) (CreateCollection name)) = Reply e2 coll"
      and "\<not> truthy e2"
      and "get_prop collection ''indexes'' = Inr (JArr xs)"
      and "drv (trace w @ [DbCall (database self) Open,
                           DbCall (database self) (CreateCollection name)])
             (CollEnsureIndex coll JUndefined JUndefined) = Reply e3 r3"
      and "\<not> truthy e3"
      and "drv (trace w @ [DbCall (database self) Open,
                           DbCall (database self) (CreateCollection name),
                           CollEnsureIndex coll JUndefined JUndefined])
             (DbCall (database self) Close) = Reply e4 r4"
  shows "(\<forall>v. fst (createCollection drv self name collection (user_cb b) w) \<noteq> Fulfilled v) \<and>
         fst (createCollection drv self name collection (user_cb b) w) =
           (if truthy e4 then Pending else Rejected JNull)"
proof -
  have "fst (createCollection drv self name collection (user_cb b) w) =
          (if truthy e4 then Pending else Rejected JNull)"
    using assms
    by (simp add: createCollection_def createCollection_body_def chain_defs world_defs
        Let_def split_def)
  then show ?thesis
    by simp
qed

text \<open>
  Claim C5 says that on the success path \<^verbatim>\<open>createCollection\<close> leaves its promise alone,
  only the failure branches rejecting it. The source with a driver that accepts every call
  and an empty list of indexes: every step succeeds, the callback handed to
  \<^verbatim>\<open>ensureIndexes\<close> for the failure is invoked all the same, with a null error, the
  connection is closed and the promise is rejected with that null.
\<close>

theorem createCollection_success_rejects:
  "fst (createCollection accepting (conn_of anonymous_config) users
          (JObj [(''indexes'', JArr [])]) None init_world) = Rejected JNull \<and>
   trace (snd (createCollection accepting (conn_of anonymous_config) users
          (JObj [(''indexes'', JArr [])]) None init_world)) =
     [DbCall (database (conn_of anonymous_config)) Open,
      DbCall (database (conn_of anonymous_config)) (CreateCollection users),
      CollEnsureIndex (JObj [(''collectionName'', users)]) JUndefined JUndefined,
      DbCall (database (conn_of anonymous_config)) Close]"
  by (simp add: createCollection_def createCollection_body_def
      chain_defs world_defs input_defs Let_def split_def)

text \<open>
  Claim C9, amended. When the open, the creation of the collection, the creation of the
  indexes and the close that follows all succeed: \<^verbatim>\<open>ensureIndexes\<close>, in the world it is
  called in, invokes the callback it is given with a null error; the events of
  \<^verbatim>\<open>createCollection\<close> are the open, the creation, the one \<^verbatim>\<open>ensureIndex\<close> call and the
  close; and the returned promise is rejected with a null reason. On no input at all is
  the promise \<^verbatim>\<open>createCollection\<close> returns fulfilled.
\<close>

theorem createCollection_callback_on_success:
  assumes "drv (trace w) (DbCall (database self) Open) = Reply e1 r1" and "\<not> truthy e1"
      and "drv (trace w @ [DbCall (database self) Open])
             (DbCall (database self) (CreateCollection name)) = Reply e2 coll"
      and "\<not> truthy e2"
      and "get_prop collection ''indexes'' = Inr (JArr xs)"
      and "drv (trace w @ [DbCall (database self) Open,
                           DbCall (database self) (CreateCollection name)])
             (CollEnsureIndex coll JUndefined JUndefined) = Reply e3 r3"
      and "\<not> truthy e3"
      and "drv (trace w @ [DbCall (database self) Open,
                           DbCall (database self) (CreateCollection name),
                           CollEnsureIndex coll JUndefined JUndefined])
             (DbCall (database self) Close) = Reply e4 r4"
      and "\<not> truthy e4"
  shows "(\<forall>cb w'. trace w' = trace w @ [DbCall (database self) Open,
                           DbCall (database self) (CreateCollection name)] \<longrightarrow>
            snd (ensureIndexes drv coll (JArr xs) (Some cb) w') =
              invoke cb JNull r3 (emit (CollEnsureIndex coll JUndefined JUndefined) w')) \<and>
         trace (snd (createCollection drv self name collection None w)) =
           trace w @ [DbCall (database self) Open,
                      DbCall (database self) (CreateCollection name),
                      CollEnsureIndex coll JUndefined JUndefined,
                      DbCall (database self) Close] \<and>
         fst (createCollection drv self name collection None w) = Rejected JNull \<and>
         (\<forall>drv' self' name' collection' b w' v.
            fst (createCollection drv' self' name' collection' (user_cb b) w') \<noteq> Fulfilled v)"
proof (intro conjI allI impI)
  fix cb and w' :: world
  assume "trace w' = trace w @ [DbCall (database self) Open,
                           DbCall (database self) (CreateCollection name)]"
  with assms(6,7)
  show "snd (ensureIndexes drv coll (JArr xs) (Some cb) w') =
          invoke cb JNull r3 (emit (CollEnsureIndex coll JUndefined JUndefined) w')"
    by (simp add: chain_defs Let_def split_def)
next
  show "trace (snd (createCollection drv self name collection None w)) =
           trace w @ [DbCall (database self) Open,
                      DbCall (database self) (CreateCollection name),
                      CollEnsureIndex coll JUndefined JUndefined,
                      DbCall (database self) Close]"
    using assms
    by (simp add: createCollection_def createCollection_body_def chain_defs world_defs
        Let_def split_def)
next
  show "fst (createCollection drv self name collection None w) = Rejected JNull"
    using assms
    by (simp add: createCollection_def createCollection_body_def chain_defs world_defs
        Let_def split_def)
next
  fix drv' self' name' collection' b w' v
  show "fst (createCollection drv' self' name' collection' (user_cb b) w') \<noteq> Fulfilled v"
    by (rule createCollection_never_fulfilled)
qed

text \<open>The statement for a driver that accepts every call and two index specifications.\<close>

theorem createCollection_callback_on_success_witness:
  "trace (snd (createCollection accepting (conn_of anonymous_config) users
          (JObj [(''indexes'', two_indexes)]) None init_world)) =
     [DbCall (database (conn_of anonymous_config)) Open,
      DbCall (database (conn_of anonymous_config)) (CreateCollection users),
      CollEnsureIndex (JObj [(''collectionName'', users)]) JUndefined JUndefined,
      DbCall (database (conn_of anonymous_config)) Close] \<and>
   fst (createCollection accepting (conn_of anonymous_config) users
          (JObj [(''indexes'', two_indexes)]) None init_world) = Rejected JNull"
proof -
  have t: "trace init_world = []"
    by (simp add: init_world_def)
  have n: "\<not> truthy JNull"
    by simp
  have h1: "accepting (trace init_world) (DbCall (database (conn_of anonymous_config)) Open) =
              Reply JNull (JStr ''ok'')"
    and h2: "accepting (trace init_world @ [DbCall (database (conn_of anonymous_config)) Open])
              (DbCall (database (conn_of anonymous_config)) (CreateCollection users)) =
              Reply JNull (JObj [(''collectionName'', users)])"
    and h3: "get_prop (JObj [(''indexes'', two_indexes)]) ''indexes'' =
              Inr (JArr [JObj [(''index'', JStr ''name''),
                               (''options'', JObj [(''unique'', JBool True)])],
                         JObj [(''index'', JStr ''email''), (''options'', JObj [])]])"
    and h4: "accepting (trace init_world @ [DbCall (database (conn_of anonymous_config)) Open,
                DbCall (database (conn_of anonymous_config)) (CreateCollection users)])
              (CollEnsureIndex (JObj [(''collectionName'', users)]) JUndefined JUndefined) =
              Reply JNull (JStr ''ok'')"
    and h5: "accepting (trace init_world @ [DbCall (database (conn_of anonymous_config)) Open,
                DbCall (database (conn_of anonymous_config)) (CreateCollection users),
                CollEnsureIndex (JObj [(''collectionName'', users)]) JUndefined JUndefined])
              (DbCall (database (conn_of anonymous_config)) Close) =
              Reply JNull (JStr ''ok'')"
    by (simp_all add: two_indexes_def)
  from createCollection_callback_on_success
    [where drv = accepting and w = init_world, OF h1 n h2 n h3 h4 n h5 n] t
  show ?thesis
    by simp
qed

text \<open>
  Claim C9 as stated asks only for the open, the creation of the collection and the
  creation of the indexes to succeed. With a driver that accepts those and reports an
  error on close, the close is called and the returned promise is not rejected: it stays
  pending.
\<close>

theorem createCollection_close_failure_counterexample:
  "fst (createCollection failing_close (conn_of anonymous_config) users
          (JObj [(''indexes'', two_indexes)]) None init_world) = Pending \<and>
   trace (snd (createCollection failing_close (conn_of anonymous_config) users
          (JObj [(''indexes'', two_indexes)]) None init_world)) =
     [DbCall (database (conn_of anonymous_config)) Open,
      DbCall (database (conn_of anonymous_config)) (CreateCollection users),
      CollEnsureIndex (JObj [(''collectionName'', users)]) JUndefined JUndefined,
      DbCall (database (conn_of anonymous_config)) Close]"
  by (simp add: createCollection_def createCollection_body_def
      chain_defs world_defs input_defs Let_def split_def)

end
